theory Spec2Isabelle
  imports Main
begin

section \<open>The query page of the admin console\<close>

text \<open>
  Source: \<^verbatim>\<open>apps/ai/clients/admin-console/src/pages/queries/[queryId]/index.tsx\<close>.

  The component \<^verbatim>\<open>QueryPage\<close> reads the route parameter \<^verbatim>\<open>queryId\<close>, asks the hook
  \<^verbatim>\<open>useQuery\<close> for the query of that identifier, keeps a copy of it in a \<^verbatim>\<open>useState\<close>
  cell, offers three handlers that call a remote operation and then store its result,
  and selects one of four page contents.

  The type \<^verbatim>\<open>Query\<close>, the hooks and \<^verbatim>\<open>mapQuery\<close> are imported by the page and are
  parameters here: \<open>'q\<close> is \<^verbatim>\<open>Query\<close>, \<open>'e\<close> the loader's error value, \<open>'x\<close> the reason
  of a rejected promise, \<open>'r\<close> the value \<^verbatim>\<open>mutate()\<close> resolves with, \<open>'u\<close> is
  \<^verbatim>\<open>QueryPutRequest\<close> and \<open>'m\<close> the result type of \<^verbatim>\<open>mapQuery\<close>.
  A value of type \<^verbatim>\<open>T | undefined\<close> is a \<open>T option\<close>, with \<open>None\<close> for
  \<^verbatim>\<open>undefined\<close>; the truthiness tests of the source (\<^verbatim>\<open>if (serverQuery)\<close>,
  \<^verbatim>\<open>!query\<close>, \<^verbatim>\<open>if (error)\<close>) are tests for \<open>Some\<close>, the values being objects.
\<close>

subsection \<open>Data\<close>

text \<open>
  The calls the page makes on its state setter and on the loader's \<^verbatim>\<open>mutate\<close>, in
  program order.
\<close>

datatype 'q call = SetQuery "'q option" | Mutate

text \<open>
  What one render of the component works with: the route parameter (the source casts
  \<^verbatim>\<open>router.query.queryId\<close> to a string), the three values
  destructured from \<^verbatim>\<open>useQuery(promptId)\<close>, and the \<^verbatim>\<open>useState\<close> cell \<^verbatim>\<open>query\<close>,
  which React keeps from one render to the next while the component stays mounted.
  \<open>calls\<close> is the trace of the calls made so far.
\<close>

record ('q, 'e) page =
  promptId :: string
  serverQuery :: "'q option"
  isLoadingServerQuery :: bool
  error :: "'e option"
  query :: "'q option"
  calls :: "'q call list"

text \<open>The four contents of \<^verbatim>\<open>pageContent\<close>; \<open>Fragment\<close> is the initial \<^verbatim>\<open><></>\<close>.\<close>

datatype 'm view = LoadingQuery | QueryError | QueryWorkspace 'm | Fragment

subsection \<open>The state cell\<close>

text \<open>\<^verbatim>\<open>setQuery(v)\<close> and \<^verbatim>\<open>setQuery((prevState) => ...)\<close>.\<close>

definition setQuery :: "'q option \<Rightarrow> ('q, 'e) page \<Rightarrow> ('q, 'e) page" where
  "setQuery v p = p\<lparr>query := v, calls := calls p @ [SetQuery v]\<rparr>"

definition setQuery_updater ::
  "('q option \<Rightarrow> 'q option) \<Rightarrow> ('q, 'e) page \<Rightarrow> ('q, 'e) page" where
  "setQuery_updater f p = setQuery (f (query p)) p"

text \<open>
  The effect of lines 29 to 38, which React runs after the first render and after every
  render in which \<^verbatim>\<open>serverQuery\<close> has changed:
  \<^verbatim>\<open>
  if (serverQuery)
    setQuery((prevState) => prevState === undefined ? serverQuery : prevState)
  \<close>
\<close>

definition useEffect_serverQuery :: "('q, 'e) page \<Rightarrow> ('q, 'e) page" where
  "useEffect_serverQuery p =
     (case serverQuery p of
        None \<Rightarrow> p
      | Some sq \<Rightarrow>
          setQuery_updater (\<lambda>prevState. if prevState = None then Some sq else prevState) p)"

subsection \<open>The mutation handlers\<close>

text \<open>
  The call \<^verbatim>\<open>mutate()\<close>: the page records that it was issued and hands back the
  promise's outcome, \<open>Inl\<close> a rejection and \<open>Inr\<close> the resolved value.
\<close>

definition mutate :: "'x + 'r \<Rightarrow> ('q, 'e) page \<Rightarrow> ('q, 'e) page \<times> ('x + 'r)" where
  "mutate outcome p = (p\<lparr>calls := calls p @ [Mutate]\<rparr>, outcome)"

text \<open>
  Each handler is an \<^verbatim>\<open>async\<close> function:
  \<^verbatim>\<open>
  const newQuery = await resubmitQuery(promptId as string)
  setQuery(newQuery)
  return mutate()
  \<close>
  The remote operation is a parameter giving the outcome of its promise. A rejected
  \<^verbatim>\<open>await\<close> throws, nothing catches it, and the handler's own promise rejects with
  the same reason before the two later statements run. \<^verbatim>\<open>return mutate()\<close> settles the
  handler's promise as the promise of \<^verbatim>\<open>mutate()\<close> settles. The result is the page
  after the handler and the outcome of the handler's promise.
\<close>

definition handleResubmitQuery ::
  "(string \<Rightarrow> 'x + 'q) \<Rightarrow> 'x + 'r \<Rightarrow> ('q, 'e) page \<Rightarrow> ('q, 'e) page \<times> ('x + 'r)" where
  "handleResubmitQuery resubmitQuery refresh p =
     (case resubmitQuery (promptId p) of
        Inl reason \<Rightarrow> (p, Inl reason)
      | Inr newQuery \<Rightarrow> mutate refresh (setQuery (Some newQuery) p))"

definition handleExecuteQuery ::
  "(string \<Rightarrow> string \<Rightarrow> 'x + 'q) \<Rightarrow> 'x + 'r \<Rightarrow> string \<Rightarrow> ('q, 'e) page
     \<Rightarrow> ('q, 'e) page \<times> ('x + 'r)" where
  "handleExecuteQuery executeQuery refresh sql_query p =
     (case executeQuery (promptId p) sql_query of
        Inl reason \<Rightarrow> (p, Inl reason)
      | Inr newQuery \<Rightarrow> mutate refresh (setQuery (Some newQuery) p))"

definition handlePutQuery ::
  "(string \<Rightarrow> 'u \<Rightarrow> 'x + 'q) \<Rightarrow> 'x + 'r \<Rightarrow> 'u \<Rightarrow> ('q, 'e) page
     \<Rightarrow> ('q, 'e) page \<times> ('x + 'r)" where
  "handlePutQuery putQuery refresh puts p =
     (case putQuery (promptId p) puts of
        Inl reason \<Rightarrow> (p, Inl reason)
      | Inr newQuery \<Rightarrow> mutate refresh (setQuery (Some newQuery) p))"

subsection \<open>The page content\<close>

text \<open>
  Lines 58 to 75. The workspace receives \<^verbatim>\<open>mapQuery(query)\<close> and the three handlers;
  the handlers are closures of the component and are not part of the view value.
\<close>

definition pageContent :: "('q \<Rightarrow> 'm) \<Rightarrow> ('q, 'e) page \<Rightarrow> 'm view" where
  "pageContent mapQuery p =
     (if isLoadingServerQuery p \<and> query p = None then LoadingQuery
      else if error p \<noteq> None then QueryError
      else (case query p of
              Some q \<Rightarrow> QueryWorkspace (mapQuery q)
            | None \<Rightarrow> Fragment))"

subsection \<open>The page over time\<close>

text \<open>
  The first render: the cell starts at \<^verbatim>\<open>undefined\<close> (\<^verbatim>\<open>useState(undefined)\<close>), no call
  has been made, and the effect runs once for the loader's first value.
\<close>

definition first_render :: "string \<Rightarrow> 'q option \<Rightarrow> bool \<Rightarrow> 'e option \<Rightarrow> ('q, 'e) page" where
  "first_render pid d l e =
     \<lparr>promptId = pid, serverQuery = d, isLoadingServerQuery = l, error = e,
      query = None, calls = []\<rparr>"

definition mount :: "string \<Rightarrow> 'q option \<Rightarrow> bool \<Rightarrow> 'e option \<Rightarrow> ('q, 'e) page" where
  "mount pid d l e = useEffect_serverQuery (first_render pid d l e)"

text \<open>
  What can happen to a mounted page:
  \<^item> the loader hands out a new \<^verbatim>\<open>serverQuery\<close> (with its flags): the dependency of the
    effect has changed, so the effect runs;
  \<^item> only \<^verbatim>\<open>isLoading\<close> or \<^verbatim>\<open>error\<close> change: the effect does not run;
  \<^item> the route parameter changes: the component is rendered again with the new
    \<^verbatim>\<open>promptId\<close>, its state cell untouched (the source resets it nowhere);
  \<^item> the promise of a remote operation started by a handler settles, with the outcome
    of the refresh that follows it.
\<close>

datatype ('q, 'e, 'x, 'r, 'u) event =
    LoaderData "'q option" bool "'e option"
  | LoaderFlags bool "'e option"
  | RouteChange string
  | Resubmit "'x + 'q" "'x + 'r"
  | Execute string "'x + 'q" "'x + 'r"
  | Put 'u "'x + 'q" "'x + 'r"

definition loader_data :: "'q option \<Rightarrow> bool \<Rightarrow> 'e option \<Rightarrow> ('q, 'e) page \<Rightarrow> ('q, 'e) page" where
  "loader_data d l e p =
     useEffect_serverQuery (p\<lparr>serverQuery := d, isLoadingServerQuery := l, error := e\<rparr>)"

definition loader_flags :: "bool \<Rightarrow> 'e option \<Rightarrow> ('q, 'e) page \<Rightarrow> ('q, 'e) page" where
  "loader_flags l e p = p\<lparr>isLoadingServerQuery := l, error := e\<rparr>"

definition route_change :: "string \<Rightarrow> ('q, 'e) page \<Rightarrow> ('q, 'e) page" where
  "route_change pid p = p\<lparr>promptId := pid\<rparr>"

fun step :: "('q, 'e, 'x, 'r, 'u) event \<Rightarrow> ('q, 'e) page \<Rightarrow> ('q, 'e) page" where
  "step (LoaderData d l e) p = loader_data d l e p"
| "step (LoaderFlags l e) p = loader_flags l e p"
| "step (RouteChange pid) p = route_change pid p"
| "step (Resubmit remote refresh) p = fst (handleResubmitQuery (\<lambda>_. remote) refresh p)"
| "step (Execute sql remote refresh) p = fst (handleExecuteQuery (\<lambda>_ _. remote) refresh sql p)"
| "step (Put puts remote refresh) p = fst (handlePutQuery (\<lambda>_ _. remote) refresh puts p)"

fun run :: "('q, 'e, 'x, 'r, 'u) event list \<Rightarrow> ('q, 'e) page \<Rightarrow> ('q, 'e) page" where
  "run [] p = p"
| "run (ev # evs) p = run evs (step ev p)"

fun is_loader_event :: "('q, 'e, 'x, 'r, 'u) event \<Rightarrow> bool" where
  "is_loader_event (LoaderData d l e) = True"
| "is_loader_event (LoaderFlags l e) = True"
| "is_loader_event _ = False"

text \<open>The values of \<^verbatim>\<open>serverQuery\<close> that a list of events delivers, in order.\<close>

fun loader_values :: "('q, 'e, 'x, 'r, 'u) event list \<Rightarrow> 'q option list" where
  "loader_values [] = []"
| "loader_values (LoaderData d l e # evs) = d # loader_values evs"
| "loader_values (_ # evs) = loader_values evs"

fun first_defined :: "'q option list \<Rightarrow> 'q option" where
  "first_defined [] = None"
| "first_defined (None # ds) = first_defined ds"
| "first_defined (Some q # ds) = Some q"

section \<open>Properties\<close>

subsection \<open>Helper facts\<close>

lemma query_setQuery: "query (setQuery v p) = v"
  by (simp add: setQuery_def)

lemma query_useEffect:
  "query (useEffect_serverQuery p) =
     (case query p of Some q \<Rightarrow> Some q | None \<Rightarrow> serverQuery p)"
  by (simp add: useEffect_serverQuery_def setQuery_updater_def setQuery_def
      split: option.splits)

lemma query_loader_data:
  "query (loader_data d l e p) = (case query p of Some q \<Rightarrow> Some q | None \<Rightarrow> d)"
  by (simp add: loader_data_def query_useEffect split: option.splits)

lemma query_loader_flags: "query (loader_flags l e p) = query p"
  by (simp add: loader_flags_def)

lemma query_route_change: "query (route_change pid p) = query p"
  by (simp add: route_change_def)

text \<open>
  The effect runs after the render that brought the new \<^verbatim>\<open>serverQuery\<close>. In that one
  render the cell of a page not yet seeded is still unset, so its content is the empty
  fragment when the loader is neither loading nor in error; the write of the effect
  then causes the render that \<open>loader_data\<close> ends in.
\<close>

lemma render_before_effect:
  "query p = None \<Longrightarrow>
     pageContent mapQuery (p\<lparr>serverQuery := d, isLoadingServerQuery := False, error := None\<rparr>)
       = Fragment"
  by (simp add: pageContent_def)

lemma run_append: "run (as @ bs) p = run bs (run as p)"
  by (induction as arbitrary: p) simp_all

lemma query_step_loader:
  "is_loader_event ev \<Longrightarrow>
     query (step ev p) =
       (case query p of Some q \<Rightarrow> Some q | None \<Rightarrow> first_defined (loader_values [ev]))"
proof (cases ev)
  case (LoaderData d l e)
  then show ?thesis
    by (cases d) (simp_all add: query_loader_data split: option.splits)
next
  case (LoaderFlags l e)
  then show ?thesis
    by (simp add: query_loader_flags split: option.splits)
qed simp_all

lemma first_defined_Cons:
  "first_defined (d # ds) = (case d of Some q \<Rightarrow> Some q | None \<Rightarrow> first_defined ds)"
  by (cases d) simp_all

lemma loader_values_Cons:
  "loader_values (ev # evs) = loader_values [ev] @ loader_values evs"
  by (cases ev) simp_all

lemma first_defined_append:
  "first_defined (xs @ ys) =
     (case first_defined xs of Some q \<Rightarrow> Some q | None \<Rightarrow> first_defined ys)"
  by (induction xs) (simp_all add: first_defined_Cons split: option.splits)

lemma query_run_loader:
  "\<forall>ev\<in>set evs. is_loader_event ev \<Longrightarrow>
     query (run evs p) =
       (case query p of Some q \<Rightarrow> Some q | None \<Rightarrow> first_defined (loader_values evs))"
proof (induction evs arbitrary: p)
  case Nil
  show ?case by (simp split: option.splits)
next
  case (Cons ev evs)
  have ev: "is_loader_event ev" and rest: "\<forall>ev\<in>set evs. is_loader_event ev"
    using Cons.prems by simp_all
  have "query (run (ev # evs) p) =
          (case query (step ev p) of Some q \<Rightarrow> Some q
           | None \<Rightarrow> first_defined (loader_values evs))"
    using Cons.IH [OF rest] by simp
  also have "\<dots> =
          (case query p of Some q \<Rightarrow> Some q
           | None \<Rightarrow> first_defined (loader_values [ev] @ loader_values evs))"
    by (simp add: query_step_loader [OF ev] first_defined_append split: option.splits)
  finally show ?case
    by (simp only: loader_values_Cons [of ev evs])
qed

lemma query_run_loader_set:
  "\<forall>ev\<in>set evs. is_loader_event ev \<Longrightarrow> query p = Some q \<Longrightarrow> query (run evs p) = Some q"
  by (simp add: query_run_loader)

lemma handleResubmitQuery_resolved:
  "resubmitQuery (promptId p) = Inr Q \<Longrightarrow>
     handleResubmitQuery resubmitQuery refresh p =
       (p\<lparr>query := Some Q, calls := calls p @ [SetQuery (Some Q), Mutate]\<rparr>, refresh)"
  by (simp add: handleResubmitQuery_def mutate_def setQuery_def)

lemma handleExecuteQuery_resolved:
  "executeQuery (promptId p) sql_query = Inr Q \<Longrightarrow>
     handleExecuteQuery executeQuery refresh sql_query p =
       (p\<lparr>query := Some Q, calls := calls p @ [SetQuery (Some Q), Mutate]\<rparr>, refresh)"
  by (simp add: handleExecuteQuery_def mutate_def setQuery_def)

lemma handlePutQuery_resolved:
  "putQuery (promptId p) puts = Inr Q \<Longrightarrow>
     handlePutQuery putQuery refresh puts p =
       (p\<lparr>query := Some Q, calls := calls p @ [SetQuery (Some Q), Mutate]\<rparr>, refresh)"
  by (simp add: handlePutQuery_def mutate_def setQuery_def)

lemma handleResubmitQuery_rejected:
  "resubmitQuery (promptId p) = Inl x \<Longrightarrow>
     handleResubmitQuery resubmitQuery refresh p = (p, Inl x)"
  by (simp add: handleResubmitQuery_def)

lemma handleExecuteQuery_rejected:
  "executeQuery (promptId p) sql_query = Inl x \<Longrightarrow>
     handleExecuteQuery executeQuery refresh sql_query p = (p, Inl x)"
  by (simp add: handleExecuteQuery_def)

lemma handlePutQuery_rejected:
  "putQuery (promptId p) puts = Inl x \<Longrightarrow>
     handlePutQuery putQuery refresh puts p = (p, Inl x)"
  by (simp add: handlePutQuery_def)

lemma pageContent_set:
  "query p = Some q \<Longrightarrow>
     pageContent mapQuery p = (if error p \<noteq> None then QueryError else QueryWorkspace (mapQuery q))"
  by (simp add: pageContent_def)

lemma query_handleResubmitQuery:
  "query (fst (handleResubmitQuery resubmitQuery refresh p)) =
     (case resubmitQuery (promptId p) of Inl x \<Rightarrow> query p | Inr Q \<Rightarrow> Some Q)"
  by (simp add: handleResubmitQuery_def mutate_def setQuery_def split: sum.splits)

lemma query_handleExecuteQuery:
  "query (fst (handleExecuteQuery executeQuery refresh sql_query p)) =
     (case executeQuery (promptId p) sql_query of Inl x \<Rightarrow> query p | Inr Q \<Rightarrow> Some Q)"
  by (simp add: handleExecuteQuery_def mutate_def setQuery_def split: sum.splits)

lemma query_handlePutQuery:
  "query (fst (handlePutQuery putQuery refresh puts p)) =
     (case putQuery (promptId p) puts of Inl x \<Rightarrow> query p | Inr Q \<Rightarrow> Some Q)"
  by (simp add: handlePutQuery_def mutate_def setQuery_def split: sum.splits)

lemma step_keeps_set: "query p \<noteq> None \<Longrightarrow> query (step ev p) \<noteq> None"
  by (cases ev)
    (auto simp: query_loader_data query_loader_flags query_route_change
      query_handleResubmitQuery query_handleExecuteQuery query_handlePutQuery
      split: option.splits sum.splits)

lemma run_keeps_set: "query p \<noteq> None \<Longrightarrow> query (run evs p) \<noteq> None"
proof (induction evs arbitrary: p)
  case Nil
  then show ?case by simp
next
  case (Cons ev evs)
  from Cons.prems have "query (step ev p) \<noteq> None"
    by (rule step_keeps_set)
  then have "query (run evs (step ev p)) \<noteq> None"
    by (rule Cons.IH)
  then show ?case by simp
qed

lemma calls_useEffect:
  "SetQuery None \<in> set (calls (useEffect_serverQuery p)) \<Longrightarrow> SetQuery None \<in> set (calls p)"
  by (auto simp: useEffect_serverQuery_def setQuery_updater_def setQuery_def
      split: option.splits if_splits)

lemma calls_step:
  "SetQuery None \<in> set (calls (step ev p)) \<Longrightarrow> SetQuery None \<in> set (calls p)"
proof (cases ev)
  case (LoaderData d l e)
  assume "SetQuery None \<in> set (calls (step ev p))"
  then show ?thesis
    using calls_useEffect [of "p\<lparr>serverQuery := d, isLoadingServerQuery := l, error := e\<rparr>"]
    by (simp add: LoaderData loader_data_def)
qed (auto simp: loader_flags_def route_change_def handleResubmitQuery_def
    handleExecuteQuery_def handlePutQuery_def mutate_def setQuery_def split: sum.splits)

lemma calls_run:
  "SetQuery None \<in> set (calls (run evs p)) \<Longrightarrow> SetQuery None \<in> set (calls p)"
  by (induction evs arbitrary: p) (auto dest: calls_step)

subsection \<open>The one-shot latch\<close>

text \<open>
  C1. One-shot latch: over any sequence of loader notifications (new data or new flags),
  a page whose state cell is unset ends with the first defined value the loader delivered,
  and stays unset when there is none; a page whose cell is set keeps its value, whatever
  the loader delivers. The cell changes at most once: if it is set after the first \<open>n\<close>
  notifications, the value it has then is the value it has at the end.
\<close>

theorem latch_one_shot:
  assumes "\<forall>ev\<in>set evs. is_loader_event ev"
  shows "query (run evs p) =
           (case query p of Some q \<Rightarrow> Some q
            | None \<Rightarrow> first_defined (loader_values evs)) \<and>
         (\<forall>n. query (run (take n evs) p) \<noteq> None \<longrightarrow>
              query (run evs p) = query (run (take n evs) p))"
proof
  show "query (run evs p) =
          (case query p of Some q \<Rightarrow> Some q | None \<Rightarrow> first_defined (loader_values evs))"
    using assms by (rule query_run_loader)
next
  show "\<forall>n. query (run (take n evs) p) \<noteq> None \<longrightarrow>
            query (run evs p) = query (run (take n evs) p)"
  proof (intro allI impI)
    fix n
    assume "query (run (take n evs) p) \<noteq> None"
    then obtain q where q: "query (run (take n evs) p) = Some q"
      by auto
    have rest: "\<forall>ev\<in>set (drop n evs). is_loader_event ev"
      using assms by (meson in_set_dropD)
    have "run evs p = run (drop n evs) (run (take n evs) p)"
      using run_append [of "take n evs" "drop n evs" p] by simp
    then show "query (run evs p) = query (run (take n evs) p)"
      using query_run_loader_set [OF rest q] q by simp
  qed
qed

theorem latch_one_shot_witness:
  "query (run [LoaderFlags True None, LoaderData None True None,
               LoaderData (Some 1) False None, LoaderData (Some 2) False None,
               LoaderData None True (Some ''timeout'')
                 :: (nat, string, string, unit, unit) event]
          (first_render ''q1'' None True None)) = Some 1"
  using latch_one_shot [of "[LoaderFlags True None, LoaderData None True None,
               LoaderData (Some 1) False None, LoaderData (Some 2) False None,
               LoaderData None True (Some ''timeout'')
                 :: (nat, string, string, unit, unit) event]"
          "first_render ''q1'' None True None"]
  by (simp add: first_render_def)

text \<open>
  C9. A change of the route parameter while the page stays mounted does not re-arm the
  latch: the render with the new identifier has the new \<^verbatim>\<open>promptId\<close> and the state cell
  it had before, and while the cell is set the values the loader then delivers for the
  new identifier are ignored.
\<close>

theorem route_change_keeps_latch:
  "promptId (route_change pid p) = pid \<and>
   query (route_change pid p) = query p \<and>
   ((\<forall>ev\<in>set evs. is_loader_event ev) \<and> query p = Some q \<longrightarrow>
      query (run (RouteChange pid # evs) p) = Some q)"
proof (intro conjI impI)
  show "promptId (route_change pid p) = pid"
    by (simp add: route_change_def)
  show "query (route_change pid p) = query p"
    by (rule query_route_change)
next
  assume a: "(\<forall>ev\<in>set evs. is_loader_event ev) \<and> query p = Some q"
  then have "query (route_change pid p) = Some q"
    by (simp add: query_route_change)
  with a have "query (run evs (route_change pid p)) = Some q"
    by (simp add: query_run_loader_set)
  then show "query (run (RouteChange pid # evs) p) = Some q"
    by simp
qed

theorem route_change_keeps_latch_witness:
  "query (run (RouteChange ''q2'' # [LoaderData None True None, LoaderData (Some 2) False None,
        LoaderFlags False (Some ''offline''), LoaderData (Some 5) False None
          :: (nat, string, string, unit, string) event])
     \<lparr>promptId = ''q1'', serverQuery = Some 1, isLoadingServerQuery = False,
      error = None :: string option, query = Some (1::nat), calls = [SetQuery (Some 1)]\<rparr>) = Some 1"
proof -
  have "\<forall>ev\<in>set ([LoaderData None True None, LoaderData (Some 2) False None,
        LoaderFlags False (Some ''offline''), LoaderData (Some 5) False None
          :: (nat, string, string, unit, string) event]). is_loader_event ev"
    by simp
  then show ?thesis
    using route_change_keeps_latch [of "''q2''" "\<lparr>promptId = ''q1'', serverQuery = Some 1, isLoadingServerQuery = False,
      error = None :: string option, query = Some (1::nat), calls = [SetQuery (Some 1)]\<rparr>" "[LoaderData None True None, LoaderData (Some 2) False None,
        LoaderFlags False (Some ''offline''), LoaderData (Some 5) False None
          :: (nat, string, string, unit, string) event]" 1]
    by simp
qed

text \<open>
  C10. The state cell never goes from defined back to undefined: whatever happens to a
  mounted page (loader notifications, route changes, mutations that resolve or reject,
  refreshes that resolve or reject), a cell that is set stays set. The page never calls
  \<^verbatim>\<open>setQuery\<close> with \<^verbatim>\<open>undefined\<close>: such a call is in the trace afterwards only if it was
  there before.
\<close>

theorem query_never_unset:
  "(query p \<noteq> None \<longrightarrow> query (run evs p) \<noteq> None) \<and>
   (SetQuery None \<in> set (calls (run evs p)) \<longrightarrow> SetQuery None \<in> set (calls p))"
  using run_keeps_set [of p evs] calls_run [of evs p] by blast

theorem query_never_unset_witness:
  "query (run ([Resubmit (Inl ''503'') (Inr ()), LoaderData None True None,
        RouteChange ''q2'', Execute ''SELECT 1'' (Inr 3) (Inl ''refresh failed''),
        LoaderData (Some 9) False None, Put ''sql_query'' (Inl ''409'') (Inr ())
          :: (nat, string, string, unit, string) event])
     (mount ''q1'' (Some 1) False (None :: string option))) \<noteq> None \<and>
   SetQuery None \<notin> set (calls (run ([Resubmit (Inl ''503'') (Inr ()), LoaderData None True None,
        RouteChange ''q2'', Execute ''SELECT 1'' (Inr 3) (Inl ''refresh failed''),
        LoaderData (Some 9) False None, Put ''sql_query'' (Inl ''409'') (Inr ())
          :: (nat, string, string, unit, string) event])
     (mount ''q1'' (Some 1) False (None :: string option))))"
proof -
  have a: "query (mount ''q1'' (Some (1::nat)) False (None :: string option)) \<noteq> None"
    by (simp add: mount_def first_render_def query_useEffect)
  have b: "SetQuery None \<notin> set (calls (mount ''q1'' (Some (1::nat)) False (None :: string option)))"
    by (simp add: mount_def first_render_def useEffect_serverQuery_def setQuery_updater_def
        setQuery_def)
  show ?thesis
    using a b query_never_unset [of "mount ''q1'' (Some 1) False (None :: string option)"
        "[Resubmit (Inl ''503'') (Inr ()), LoaderData None True None,
        RouteChange ''q2'', Execute ''SELECT 1'' (Inr 3) (Inl ''refresh failed''),
        LoaderData (Some 9) False None, Put ''sql_query'' (Inl ''409'') (Inr ())
          :: (nat, string, string, unit, string) event]"]
    by blast
qed

subsection \<open>The handlers\<close>

text \<open>
  C3. When the remote call of a handler (resubmit, execute, put) rejects with reason
  \<open>x\<close>, the handler returns the page as it was, so the state cell is unchanged and no
  call of \<^verbatim>\<open>setQuery\<close> or \<^verbatim>\<open>mutate\<close> is added to the trace, and the handler's own promise
  rejects with \<open>x\<close>: the rejection reaches the caller.
\<close>

theorem mutation_rejected_atomic:
  "(resubmitQuery (promptId p) = Inl x \<longrightarrow>
      handleResubmitQuery resubmitQuery refresh p = (p, Inl x)) \<and>
   (executeQuery (promptId p) sql_query = Inl x \<longrightarrow>
      handleExecuteQuery executeQuery refresh sql_query p = (p, Inl x)) \<and>
   (putQuery (promptId p) puts = Inl x \<longrightarrow>
      handlePutQuery putQuery refresh puts p = (p, Inl x))"
  by (simp add: handleResubmitQuery_rejected handleExecuteQuery_rejected
      handlePutQuery_rejected)

theorem mutation_rejected_atomic_witness:
  "handleResubmitQuery (\<lambda>pid. Inl ''503'') (Inr ())
     \<lparr>promptId = ''q1'', serverQuery = Some 1, isLoadingServerQuery = False,
      error = None :: string option, query = Some (1::nat), calls = [SetQuery (Some 1)]\<rparr>
   = (\<lparr>promptId = ''q1'', serverQuery = Some 1, isLoadingServerQuery = False,
       error = None, query = Some 1, calls = [SetQuery (Some 1)]\<rparr>, Inl ''503'') \<and>
   handleExecuteQuery (\<lambda>pid sql. Inl ''503'') (Inr ()) ''SELECT 1''
     \<lparr>promptId = ''q1'', serverQuery = Some 1, isLoadingServerQuery = False,
      error = None :: string option, query = Some (1::nat), calls = [SetQuery (Some 1)]\<rparr>
   = (\<lparr>promptId = ''q1'', serverQuery = Some 1, isLoadingServerQuery = False,
       error = None, query = Some 1, calls = [SetQuery (Some 1)]\<rparr>, Inl ''503'') \<and>
   handlePutQuery (\<lambda>pid puts. Inl ''503'') (Inr ()) ''sql_query''
     \<lparr>promptId = ''q1'', serverQuery = Some 1, isLoadingServerQuery = False,
      error = None :: string option, query = Some (1::nat), calls = [SetQuery (Some 1)]\<rparr>
   = (\<lparr>promptId = ''q1'', serverQuery = Some 1, isLoadingServerQuery = False,
       error = None, query = Some 1, calls = [SetQuery (Some 1)]\<rparr>, Inl ''503'')"
  using mutation_rejected_atomic [of "\<lambda>pid. Inl ''503''"
      "\<lparr>promptId = ''q1'', serverQuery = Some 1, isLoadingServerQuery = False,
        error = None :: string option, query = Some (1::nat), calls = [SetQuery (Some 1)]\<rparr>"
      "''503''" "Inr ()" "\<lambda>pid sql. Inl ''503''" "''SELECT 1''"
      "\<lambda>pid puts. Inl ''503''" "''sql_query''"]
  by simp

text \<open>
  C2, as amended. When the remote call of a handler (resubmit, execute, put) resolves
  with a query \<open>Q\<close>, the handler writes \<open>Q\<close> into the state cell whatever the cell held,
  then calls \<^verbatim>\<open>mutate\<close> (the trace grows by the write followed by the refresh), and its
  promise settles as the refresh does. The next render shows the workspace for \<open>Q\<close>
  unless the loader reports an error, in which case it shows the error view.
\<close>

theorem mutation_resolved_overwrites:
  "(resubmitQuery (promptId p) = Inr Q \<longrightarrow>
      handleResubmitQuery resubmitQuery refresh p =
        (p\<lparr>query := Some Q, calls := calls p @ [SetQuery (Some Q), Mutate]\<rparr>, refresh) \<and>
      pageContent mapQuery (fst (handleResubmitQuery resubmitQuery refresh p)) =
        (if error p \<noteq> None then QueryError else QueryWorkspace (mapQuery Q))) \<and>
   (executeQuery (promptId p) sql_query = Inr Q \<longrightarrow>
      handleExecuteQuery executeQuery refresh sql_query p =
        (p\<lparr>query := Some Q, calls := calls p @ [SetQuery (Some Q), Mutate]\<rparr>, refresh) \<and>
      pageContent mapQuery (fst (handleExecuteQuery executeQuery refresh sql_query p)) =
        (if error p \<noteq> None then QueryError else QueryWorkspace (mapQuery Q))) \<and>
   (putQuery (promptId p) puts = Inr Q \<longrightarrow>
      handlePutQuery putQuery refresh puts p =
        (p\<lparr>query := Some Q, calls := calls p @ [SetQuery (Some Q), Mutate]\<rparr>, refresh) \<and>
      pageContent mapQuery (fst (handlePutQuery putQuery refresh puts p)) =
        (if error p \<noteq> None then QueryError else QueryWorkspace (mapQuery Q)))"
  by (simp add: handleResubmitQuery_resolved handleExecuteQuery_resolved
      handlePutQuery_resolved pageContent_set)

theorem mutation_resolved_overwrites_witness:
  "handleResubmitQuery (\<lambda>pid. Inr 3) (Inr () :: string + unit)
      \<lparr>promptId = ''q1'', serverQuery = Some 1, isLoadingServerQuery = False,
        error = None :: string option, query = Some (1::nat), calls = [SetQuery (Some 1)]\<rparr> =
     (\<lparr>promptId = ''q1'', serverQuery = Some 1, isLoadingServerQuery = False,
       error = None, query = Some 3,
       calls = [SetQuery (Some 1), SetQuery (Some 3), Mutate]\<rparr>, Inr ()) \<and>
   pageContent Suc (fst (handleResubmitQuery (\<lambda>pid. Inr 3) (Inr () :: string + unit)
      \<lparr>promptId = ''q1'', serverQuery = Some 1, isLoadingServerQuery = False,
        error = None :: string option, query = Some (1::nat), calls = [SetQuery (Some 1)]\<rparr>)) = QueryWorkspace 4 \<and>
   pageContent Suc (fst (handleExecuteQuery (\<lambda>pid sql. Inr 3) (Inr () :: string + unit)
      ''SELECT 1''
      \<lparr>promptId = ''q1'', serverQuery = Some 1, isLoadingServerQuery = False,
        error = None :: string option, query = Some (1::nat), calls = [SetQuery (Some 1)]\<rparr>)) = QueryWorkspace 4 \<and>
   pageContent Suc (fst (handlePutQuery (\<lambda>pid puts. Inr 3) (Inr () :: string + unit)
      ''sql_query''
      \<lparr>promptId = ''q1'', serverQuery = Some 1, isLoadingServerQuery = False,
        error = None :: string option, query = Some (1::nat), calls = [SetQuery (Some 1)]\<rparr>)) = QueryWorkspace 4"
  using mutation_resolved_overwrites [of "\<lambda>pid. Inr 3"
      "\<lparr>promptId = ''q1'', serverQuery = Some 1, isLoadingServerQuery = False,
        error = None :: string option, query = Some (1::nat), calls = [SetQuery (Some 1)]\<rparr>"
      3 "Inr () :: string + unit" Suc "\<lambda>pid sql. Inr 3" "''SELECT 1''"
      "\<lambda>pid puts. Inr 3" "''sql_query''"]
  by auto

text \<open>
  C2 as stated fails: with the loader reporting an error, a resolved \<^verbatim>\<open>execute\<close> writes
  the new query into the cell, and the next render is the error view, not the workspace.
\<close>

theorem mutation_resolved_view_counterexample:
  "query (fst (handleExecuteQuery (\<lambda>pid sql. Inr 3) (Inr () :: string + unit) ''SELECT 1''
      \<lparr>promptId = ''q1'', serverQuery = Some 1, isLoadingServerQuery = False,
        error = Some ''offline'', query = Some (1::nat), calls = [SetQuery (Some 1)]\<rparr>)) = Some 3 \<and>
   pageContent Suc (fst (handleExecuteQuery (\<lambda>pid sql. Inr 3) (Inr () :: string + unit)
      ''SELECT 1''
      \<lparr>promptId = ''q1'', serverQuery = Some 1, isLoadingServerQuery = False,
        error = Some ''offline'', query = Some (1::nat), calls = [SetQuery (Some 1)]\<rparr>)) = QueryError \<and>
   pageContent Suc (fst (handleExecuteQuery (\<lambda>pid sql. Inr 3) (Inr () :: string + unit)
      ''SELECT 1''
      \<lparr>promptId = ''q1'', serverQuery = Some 1, isLoadingServerQuery = False,
        error = Some ''offline'', query = Some (1::nat), calls = [SetQuery (Some 1)]\<rparr>)) \<noteq> QueryWorkspace (Suc 3)"
  by (simp add: handleExecuteQuery_def mutate_def setQuery_def pageContent_def)

text \<open>
  C5, as amended. The outcome of the refresh has no influence on the page: the page after
  a handler is the same for any two outcomes of \<^verbatim>\<open>mutate()\<close>, and after a resolved
  remote call the state cell holds the mutation's result. The page neither catches nor
  inspects the refresh: the handler's promise settles exactly as the promise of
  \<^verbatim>\<open>mutate()\<close> does, so a refresh that rejects rejects the handler's promise.
\<close>

theorem refresh_outcome_returned:
  "fst (handleResubmitQuery resubmitQuery refresh p) =
     fst (handleResubmitQuery resubmitQuery refresh' p) \<and>
   fst (handleExecuteQuery executeQuery refresh sql_query p) =
     fst (handleExecuteQuery executeQuery refresh' sql_query p) \<and>
   fst (handlePutQuery putQuery refresh puts p) =
     fst (handlePutQuery putQuery refresh' puts p) \<and>
   (resubmitQuery (promptId p) = Inr Q \<longrightarrow>
      query (fst (handleResubmitQuery resubmitQuery refresh p)) = Some Q \<and>
      snd (handleResubmitQuery resubmitQuery refresh p) = refresh) \<and>
   (executeQuery (promptId p) sql_query = Inr Q \<longrightarrow>
      query (fst (handleExecuteQuery executeQuery refresh sql_query p)) = Some Q \<and>
      snd (handleExecuteQuery executeQuery refresh sql_query p) = refresh) \<and>
   (putQuery (promptId p) puts = Inr Q \<longrightarrow>
      query (fst (handlePutQuery putQuery refresh puts p)) = Some Q \<and>
      snd (handlePutQuery putQuery refresh puts p) = refresh)"
  by (simp add: handleResubmitQuery_def handleExecuteQuery_def handlePutQuery_def
      mutate_def setQuery_def split: sum.splits)

theorem refresh_outcome_returned_witness:
  "fst (handleResubmitQuery (\<lambda>pid. Inr 3) (Inl ''refresh failed'' :: string + unit)
      \<lparr>promptId = ''q1'', serverQuery = Some 1, isLoadingServerQuery = False,
        error = None :: string option, query = Some (1::nat), calls = [SetQuery (Some 1)]\<rparr>) =
   fst (handleResubmitQuery (\<lambda>pid. Inr 3) (Inr () :: string + unit)
      \<lparr>promptId = ''q1'', serverQuery = Some 1, isLoadingServerQuery = False,
        error = None :: string option, query = Some (1::nat), calls = [SetQuery (Some 1)]\<rparr>) \<and>
   query (fst (handleResubmitQuery (\<lambda>pid. Inr 3) (Inl ''refresh failed'' :: string + unit)
      \<lparr>promptId = ''q1'', serverQuery = Some 1, isLoadingServerQuery = False,
        error = None :: string option, query = Some (1::nat), calls = [SetQuery (Some 1)]\<rparr>)) = Some 3 \<and>
   snd (handleResubmitQuery (\<lambda>pid. Inr 3) (Inl ''refresh failed'' :: string + unit)
      \<lparr>promptId = ''q1'', serverQuery = Some 1, isLoadingServerQuery = False,
        error = None :: string option, query = Some (1::nat), calls = [SetQuery (Some 1)]\<rparr>) = Inl ''refresh failed'' \<and>
   snd (handleExecuteQuery (\<lambda>pid sql. Inr 3) (Inl ''refresh failed'' :: string + unit)
      ''SELECT 1''
      \<lparr>promptId = ''q1'', serverQuery = Some 1, isLoadingServerQuery = False,
        error = None :: string option, query = Some (1::nat), calls = [SetQuery (Some 1)]\<rparr>) = Inl ''refresh failed'' \<and>
   snd (handlePutQuery (\<lambda>pid puts. Inr 3) (Inl ''refresh failed'' :: string + unit)
      ''sql_query''
      \<lparr>promptId = ''q1'', serverQuery = Some 1, isLoadingServerQuery = False,
        error = None :: string option, query = Some (1::nat), calls = [SetQuery (Some 1)]\<rparr>) = Inl ''refresh failed''"
  using refresh_outcome_returned [of "\<lambda>pid. Inr 3" "Inl ''refresh failed'' :: string + unit"
      "\<lparr>promptId = ''q1'', serverQuery = Some 1, isLoadingServerQuery = False,
        error = None :: string option, query = Some (1::nat), calls = [SetQuery (Some 1)]\<rparr>"
      "Inr () :: string + unit" "\<lambda>pid sql. Inr 3" "''SELECT 1''" "\<lambda>pid puts. Inr 3" "''sql_query''" 3]
  by auto

text \<open>
  C5 as stated fails: after a resolved \<^verbatim>\<open>resubmit\<close>, the caller of the handler receives
  a rejection when the refresh rejects and a resolution when it resolves, so the two are
  told apart.
\<close>

theorem refresh_failure_counterexample:
  "snd (handleResubmitQuery (\<lambda>pid. Inr 3) (Inl ''refresh failed'' :: string + unit)
      \<lparr>promptId = ''q1'', serverQuery = Some 1, isLoadingServerQuery = False,
        error = None :: string option, query = Some (1::nat), calls = [SetQuery (Some 1)]\<rparr>) = Inl ''refresh failed'' \<and>
   snd (handleResubmitQuery (\<lambda>pid. Inr 3) (Inr () :: string + unit)
      \<lparr>promptId = ''q1'', serverQuery = Some 1, isLoadingServerQuery = False,
        error = None :: string option, query = Some (1::nat), calls = [SetQuery (Some 1)]\<rparr>) = Inr () \<and>
   snd (handleResubmitQuery (\<lambda>pid. Inr 3) (Inl ''refresh failed'' :: string + unit)
      \<lparr>promptId = ''q1'', serverQuery = Some 1, isLoadingServerQuery = False,
        error = None :: string option, query = Some (1::nat), calls = [SetQuery (Some 1)]\<rparr>) \<noteq>
   snd (handleResubmitQuery (\<lambda>pid. Inr 3) (Inr () :: string + unit)
      \<lparr>promptId = ''q1'', serverQuery = Some 1, isLoadingServerQuery = False,
        error = None :: string option, query = Some (1::nat), calls = [SetQuery (Some 1)]\<rparr>)"
  by (simp add: handleResubmitQuery_def mutate_def setQuery_def)

subsection \<open>The view selector\<close>

text \<open>
  C4. Precedence of the page content: it is the loading view exactly when the loader is
  loading and the state cell is unset; otherwise it is the error view whenever the loader
  reports an error, also when the cell holds a value; otherwise the workspace for the
  value of the cell (passed through \<^verbatim>\<open>mapQuery\<close>) when the cell is set; otherwise the
  empty fragment.
\<close>

theorem pageContent_precedence:
  "(pageContent mapQuery p = LoadingQuery \<longleftrightarrow> isLoadingServerQuery p \<and> query p = None) \<and>
   (\<not> (isLoadingServerQuery p \<and> query p = None) \<and> error p \<noteq> None \<longrightarrow>
      pageContent mapQuery p = QueryError) \<and>
   (\<not> (isLoadingServerQuery p \<and> query p = None) \<and> error p = None \<and> query p = Some q \<longrightarrow>
      pageContent mapQuery p = QueryWorkspace (mapQuery q)) \<and>
   (\<not> (isLoadingServerQuery p \<and> query p = None) \<and> error p = None \<and> query p = None \<longrightarrow>
      pageContent mapQuery p = Fragment)"
  by (auto simp: pageContent_def split: option.splits)

theorem pageContent_precedence_witness:
  "pageContent Suc
     \<lparr>promptId = ''q1'', serverQuery = None, isLoadingServerQuery = True,
      error = Some ''offline'', query = None, calls = []\<rparr> = LoadingQuery \<and>
   pageContent Suc
     \<lparr>promptId = ''q1'', serverQuery = Some 1, isLoadingServerQuery = True,
      error = Some ''offline'', query = Some 1, calls = [SetQuery (Some 1)]\<rparr> = QueryError \<and>
   pageContent Suc
     \<lparr>promptId = ''q1'', serverQuery = Some 1, isLoadingServerQuery = True,
      error = None :: string option, query = Some 1, calls = [SetQuery (Some 1)]\<rparr>
     = QueryWorkspace 2 \<and>
   pageContent Suc
     \<lparr>promptId = ''q1'', serverQuery = None, isLoadingServerQuery = False,
      error = None :: string option, query = None, calls = []\<rparr> = Fragment"
  using
    pageContent_precedence [of Suc
      "\<lparr>promptId = ''q1'', serverQuery = None, isLoadingServerQuery = True,
        error = Some ''offline'', query = None, calls = []\<rparr>" 1]
    pageContent_precedence [of Suc
      "\<lparr>promptId = ''q1'', serverQuery = Some 1, isLoadingServerQuery = True,
        error = Some ''offline'', query = Some 1, calls = [SetQuery (Some 1)]\<rparr>" 1]
    pageContent_precedence [of Suc
      "\<lparr>promptId = ''q1'', serverQuery = Some 1, isLoadingServerQuery = True,
        error = None :: string option, query = Some 1, calls = [SetQuery (Some 1)]\<rparr>" 1]
    pageContent_precedence [of Suc
      "\<lparr>promptId = ''q1'', serverQuery = None, isLoadingServerQuery = False,
        error = None :: string option, query = None, calls = []\<rparr>" 1]
  by simp

text \<open>
  C8. The page content is a function of the loading flag, the loader's error and the
  state cell alone: two renders that agree on these three agree on the content, whatever
  the route parameter, the loader's data and the calls made so far.
\<close>

theorem pageContent_deterministic:
  "isLoadingServerQuery p = isLoadingServerQuery p' \<Longrightarrow> error p = error p' \<Longrightarrow>
     query p = query p' \<Longrightarrow> pageContent mapQuery p = pageContent mapQuery p'"
  by (simp add: pageContent_def)

theorem pageContent_deterministic_witness:
  "pageContent Suc
     \<lparr>promptId = ''q1'', serverQuery = Some 1, isLoadingServerQuery = False,
      error = None :: string option, query = Some 1, calls = [SetQuery (Some 1)]\<rparr> =
   pageContent Suc
     \<lparr>promptId = ''q2'', serverQuery = Some 7, isLoadingServerQuery = False,
      error = None :: string option, query = Some 1,
      calls = [SetQuery (Some 1), SetQuery (Some 1)]\<rparr>"
  by (rule pageContent_deterministic) simp_all

subsection \<open>The initial load\<close>

text \<open>
  C6. Initial load: a page mounted while the loader reports loading and no data shows
  the loading view. When the loader later reports \<open>Q1\<close>, not loading and no error, with
  only loader notifications without data and no mutation in between, the page shows the
  workspace for \<open>Q1\<close>, once the seeding effect of that notification has run.
\<close>

theorem initial_load_sequence:
  fixes Q1 :: 'q and evs :: "('q, 'e, 'x, 'r, 'u) event list"
  assumes evs: "\<forall>ev\<in>set evs. is_loader_event ev"
    and none: "first_defined (loader_values evs) = None"
  shows "pageContent mapQuery (mount pid None True e) = LoadingQuery \<and>
     pageContent mapQuery
       (run (evs @ [LoaderData (Some Q1) False None]) (mount pid None True e)) =
       QueryWorkspace (mapQuery Q1)"
proof
  show "pageContent mapQuery (mount pid None True e) = LoadingQuery"
    by (simp add: pageContent_def mount_def first_render_def useEffect_serverQuery_def)
next
  let ?m = "mount pid (None :: 'q option) True e"
  let ?p = "run evs ?m"
  let ?p' = "step (LoaderData (Some Q1) False None :: ('q, 'e, 'x, 'r, 'u) event) ?p"
  have "query ?m = None"
    by (simp add: mount_def first_render_def query_useEffect)
  then have "query ?p = None"
    using query_run_loader [OF evs, of ?m] none by simp
  then have "query ?p' = Some Q1"
    by (simp add: query_loader_data)
  moreover have "error ?p' = None"
    by (simp add: loader_data_def useEffect_serverQuery_def setQuery_updater_def setQuery_def)
  ultimately have "pageContent mapQuery ?p' = QueryWorkspace (mapQuery Q1)"
    by (simp add: pageContent_set)
  then show "pageContent mapQuery
       (run (evs @ [LoaderData (Some Q1) False None]) (mount pid None True e)) =
       QueryWorkspace (mapQuery Q1)"
    by (simp add: run_append)
qed

theorem initial_load_sequence_witness:
  "pageContent Suc (mount ''q1'' None True (None :: string option)) = LoadingQuery \<and>
   pageContent Suc
     (run ([LoaderFlags True None, LoaderData None True None
              :: (nat, string, string, unit, string) event] @
           [LoaderData (Some 1) False None])
        (mount ''q1'' None True (None :: string option))) = QueryWorkspace 2"
proof -
  have a: "\<forall>ev\<in>set [LoaderFlags True None, LoaderData None True None
              :: (nat, string, string, unit, string) event]. is_loader_event ev"
    by simp
  have b: "first_defined (loader_values [LoaderFlags True None, LoaderData None True None
              :: (nat, string, string, unit, string) event]) = None"
    by simp
  show ?thesis
    using initial_load_sequence [OF a b, of Suc "''q1''" None 1] by simp
qed

end
